theory Spec2Isabelle
  imports Complex_Main "HOL-Library.Sublist" "HOL-Library.Monad_Syntax"
begin

section \<open>Arch mirror updater: a shallow embedding of arch_mirror_updater.py\<close>

text \<open>
  The script fetches the mirror status document, keeps the mirrors that pass six checks,
  and rewrites \<^verbatim>\<open>/etc/pacman.d/mirrorlist\<close> with one line per surviving mirror.
  Everything the script takes from its surroundings is an explicit input of the model:
  the platform string, the effective user id, the reference instant \<open>NOW\<close>, the answer
  of the network, the library function \<open>datetime.strptime\<close>, and the file system.
\<close>

subsection \<open>Options and constants\<close>

definition MAX_LAST_SYNC_HOURS :: rat where
  "MAX_LAST_SYNC_HOURS = 6"

definition MAX_SCORE :: rat where
  "MAX_SCORE = 1"

definition MINIMUM_COMPLETION_PERCENTAGE :: rat where
  "MINIMUM_COMPLETION_PERCENTAGE = 1"

text \<open>
  \<open>URL_BLACKLIST\<close> is a Python set; the script only asks whether any member occurs in a
  url, which does not depend on the iteration order, so a list carries it.
\<close>

definition URL_BLACKLIST :: "string list" where
  "URL_BLACKLIST = [''mirrors.lug.mtu.edu'', ''mirror.rackspace.com'']"

definition MIRROR_LIST_PATH :: string where
  "MIRROR_LIST_PATH = ''/etc/pacman.d/mirrorlist''"

definition URL :: string where
  "URL = ''https://www.archlinux.org/mirrors/status/json/''"

subsection \<open>Data\<close>

text \<open>
  The fields of one element of \<open>DATA["urls"]\<close> that the script reads, typed as the
  docstring of \<open>load_data_from_url\<close> gives them. The two numbers are JSON numbers;
  they are compared with the integer constants only, and Python compares a finite float
  or an int with an int exactly, so a rational carries them.
\<close>

record url_information =
  url :: string
  protocol :: string
  last_sync :: string
  completion_pct :: rat
  score :: rat
  active :: bool

record status_data =
  last_check :: string
  urls :: "url_information list"

text \<open>
  A naive \<open>datetime\<close> is a point of the proleptic Gregorian calendar with microsecond
  resolution: it is modelled by the number of microseconds since 0001-01-01T00:00:00,
  and a \<open>timedelta\<close> by a signed number of microseconds, so that the subtraction of two
  datetimes is the subtraction of integers, as Python computes it.
\<close>

type_synonym datetime = int
type_synonym timedelta = int

text \<open>
  The exceptions the script can end with. \<open>RuntimeError\<close> carries its message: the
  script raises it for the platform check and for the privilege check, and the message
  tells the two apart. \<open>ValueError\<close> is what \<open>datetime.strptime\<close> raises on a
  string that does not match the format. The remaining three are the failures of
  \<open>load_data_from_url\<close> and of \<open>open\<close>.
\<close>

datatype error =
    RuntimeError string
  | ValueError
  | URLError
  | JSONDecodeError
  | OSError

text \<open>
  \<open>datetime.strptime(timestamp, time_format)\<close> is a function of the standard library:
  the model takes it as a parameter, \<open>None\<close> standing for the \<open>ValueError\<close> it raises.
\<close>

type_synonym strptime_fn = "string \<Rightarrow> string \<Rightarrow> datetime option"

text \<open>
  A generator, as its consumer sees it: it is exhausted, or it yields a value and goes on,
  or it raises. The consumer acts on each value before the generator computes the next.
\<close>

datatype 'a gen = Stop | Yield 'a "'a gen" | Raise error

datatype mode = Mode_w | Mode_a

datatype event =
    Urlopen string
  | Warn string string
  | Open string mode
  | Write string
  | Close

text \<open>
  What the script reads from its surroundings, and the part of the world it acts on: the
  content of the file at \<open>MIRROR_LIST_PATH\<close> (\<open>None\<close> when there is no such file),
  whether the file can be opened for writing, and the trace of the effects performed so
  far, oldest first.
\<close>

record env =
  platform :: string
  euid :: nat
  NOW :: datetime
  response :: "error + status_data"

record world =
  mirrorlist :: "string option"
  writable :: bool
  events :: "event list"

subsection \<open>The functions of the script\<close>

definition is_platform_linux :: "string \<Rightarrow> bool" where
  "is_platform_linux sys_platform = sublist ''linux'' sys_platform"

definition load_data_from_url :: "env \<Rightarrow> string \<Rightarrow> world \<Rightarrow> (error + status_data) \<times> world" where
  "load_data_from_url e u w = (response e, w\<lparr>events := events w @ [Urlopen u]\<rparr>)"

definition total_seconds :: "timedelta \<Rightarrow> rat" where
  "total_seconds td = of_int td / 1000000"

definition is_outdated :: "strptime_fn \<Rightarrow> datetime \<Rightarrow> string \<Rightarrow> string \<Rightarrow> error + bool" where
  "is_outdated strptime now timestamp time_format =
     (case strptime timestamp time_format of
        None \<Rightarrow> Inl ValueError
      | Some parsed \<Rightarrow>
          (let result = now - parsed;
               hours_since_last_sync = total_seconds result / 3600
           in Inr (hours_since_last_sync > MAX_LAST_SYNC_HOURS)))"

definition mirror_path :: "url_information \<Rightarrow> string" where
  "mirror_path u = ''Server = '' @ url u @ ''$repo/os/$arch'' @ [CHR 0x0A]"

fun updated_urls :: "strptime_fn \<Rightarrow> datetime \<Rightarrow> url_information list \<Rightarrow> string gen" where
  "updated_urls strptime now [] = Stop"
| "updated_urls strptime now (u # us) =
     (if list_ex (\<lambda>slow_url. sublist slow_url (url u)) URL_BLACKLIST
        then updated_urls strptime now us
      else if \<not> active u
        then updated_urls strptime now us
      else if protocol u \<noteq> ''https''
        then updated_urls strptime now us
      else if \<not> completion_pct u \<ge> MINIMUM_COMPLETION_PERCENTAGE
        then updated_urls strptime now us
      else if score u \<ge> MAX_SCORE
        then updated_urls strptime now us
      else (case is_outdated strptime now (last_sync u) ''%Y-%m-%dT%H:%M:%SZ'' of
              Inl e \<Rightarrow> Raise e
            | Inr True \<Rightarrow> updated_urls strptime now us
            | Inr False \<Rightarrow> Yield (mirror_path u) (updated_urls strptime now us)))"

definition warn :: "string \<Rightarrow> string \<Rightarrow> world \<Rightarrow> world" where
  "warn category message w = w\<lparr>events := events w @ [Warn category message]\<rparr>"

text \<open>
  The body of the \<open>with open(MIRROR_LIST_PATH, mode=mode)\<close> block: open (mode "w"
  truncates, mode "a" keeps the content, both create a missing file), write the line at
  the end, close. An \<open>open\<close> that fails raises before the file is touched.
\<close>

definition open_write :: "mode \<Rightarrow> string \<Rightarrow> world \<Rightarrow> (error + unit) \<times> world" where
  "open_write m line w =
     (let w1 = w\<lparr>events := events w @ [Open MIRROR_LIST_PATH m]\<rparr> in
      if \<not> writable w then (Inl OSError, w1)
      else
        (let old = (case m of
                      Mode_w \<Rightarrow> []
                    | Mode_a \<Rightarrow> (case mirrorlist w of None \<Rightarrow> [] | Some c \<Rightarrow> c))
         in (Inr (), w1\<lparr>mirrorlist := Some (old @ line),
                         events := events w1 @ [Write line, Close]\<rparr>)))"

text \<open>
  The \<open>for mirror_path in updated_urls(...)\<close> loop of \<open>main\<close>, with its two loop
  variables \<open>have_failed\<close> and \<open>mode\<close>. It returns the final \<open>have_failed\<close>.
\<close>

fun main_loop :: "string gen \<Rightarrow> bool \<Rightarrow> mode \<Rightarrow> world \<Rightarrow> (error + bool) \<times> world" where
  "main_loop Stop have_failed m w = (Inr have_failed, w)"
| "main_loop (Raise e) have_failed m w = (Inl e, w)"
| "main_loop (Yield line g) have_failed m w =
     (case open_write m line w of
        (Inl e, w') \<Rightarrow> (Inl e, w')
      | (Inr _, w') \<Rightarrow> main_loop g False Mode_a w')"

definition stale_message :: string where
  "stale_message =
     ''The number of hours since the last sync of the data, is larger than 6''"

definition main :: "strptime_fn \<Rightarrow> env \<Rightarrow> world \<Rightarrow> (error + unit) \<times> world" where
  "main strptime e w =
     (if \<not> is_platform_linux (platform e)
        then (Inl (RuntimeError ''The running platform is not linux''), w)
      else if euid e \<noteq> 0
        then (Inl (RuntimeError ''The user who is running the script needs to be root''), w)
      else
        (case load_data_from_url e URL w of
           (Inl err, w1) \<Rightarrow> (Inl err, w1)
         | (Inr DATA, w1) \<Rightarrow>
             (case is_outdated strptime (NOW e) (last_check DATA) ''%Y-%m-%dT%H:%M:%S.%fZ'' of
                Inl err \<Rightarrow> (Inl err, w1)
              | Inr outdated \<Rightarrow>
                  (let w2 = (if outdated then warn ''RuntimeWarning'' stale_message w1 else w1)
                   in (case main_loop (updated_urls strptime (NOW e) (urls DATA)) True Mode_w w2 of
                         (Inl err, w3) \<Rightarrow> (Inl err, w3)
                       | (Inr have_failed, w3) \<Rightarrow>
                           (Inr (),
                            if have_failed
                              then warn ''UserWarning'' ''The mirror list was not updated'' w3
                              else w3))))))"

subsection \<open>Observing a generator and the trace\<close>

fun yields :: "'a gen \<Rightarrow> 'a list" where
  "yields Stop = []"
| "yields (Raise e) = []"
| "yields (Yield x g) = x # yields g"

fun raised :: "'a gen \<Rightarrow> error option" where
  "raised Stop = None"
| "raised (Raise e) = Some e"
| "raised (Yield x g) = raised g"

fun gen_of :: "'a list \<Rightarrow> 'a gen" where
  "gen_of [] = Stop"
| "gen_of (x # xs) = Yield x (gen_of xs)"

text \<open>
  The file operations of writing the lines \<open>ls\<close> one \<open>with\<close> block each, the first
  block opening the file in mode \<open>m\<close> and every later one in append mode.
\<close>

fun line_ops :: "mode \<Rightarrow> string list \<Rightarrow> event list" where
  "line_ops m [] = []"
| "line_ops m (l # ls) = [Open MIRROR_LIST_PATH m, Write l, Close] @ line_ops Mode_a ls"

text \<open>What an \<open>open\<close> in mode \<open>m\<close> leaves of the content \<open>c\<close> of the file.\<close>

fun kept :: "mode \<Rightarrow> string option \<Rightarrow> string" where
  "kept Mode_w c = []"
| "kept Mode_a None = []"
| "kept Mode_a (Some old) = old"

fun is_open :: "event \<Rightarrow> bool" where
  "is_open (Open p m) = True"
| "is_open ev = False"

fun is_file_op :: "event \<Rightarrow> bool" where
  "is_file_op (Open p m) = True"
| "is_file_op (Write l) = True"
| "is_file_op Close = True"
| "is_file_op ev = False"

subsection \<open>The six checks, in the words of the specification\<close>

definition denylisted :: "url_information \<Rightarrow> bool" where
  "denylisted u = (\<exists>d \<in> set URL_BLACKLIST. sublist d (url u))"

text \<open>Six hours, in microseconds.\<close>

definition threshold_us :: int where
  "threshold_us = 6 * 3600 * 1000000"

definition stale :: "datetime \<Rightarrow> datetime \<Rightarrow> bool" where
  "stale now t = (now - t > threshold_us)"

definition passes_first_five :: "url_information \<Rightarrow> bool" where
  "passes_first_five u =
     (\<not> denylisted u \<and> active u \<and> protocol u = ''https''
      \<and> completion_pct u \<ge> 1 \<and> score u < 1)"

definition accepted :: "strptime_fn \<Rightarrow> datetime \<Rightarrow> url_information \<Rightarrow> bool" where
  "accepted strptime now u =
     (passes_first_five u \<and>
      (case strptime (last_sync u) ''%Y-%m-%dT%H:%M:%SZ'' of
         None \<Rightarrow> False
       | Some t \<Rightarrow> \<not> stale now t))"

text \<open>
  An entry fails a check when the check is evaluated and comes out false; a timestamp
  that cannot be parsed fails no check, it ends the run.
\<close>

definition rejected :: "strptime_fn \<Rightarrow> datetime \<Rightarrow> url_information \<Rightarrow> bool" where
  "rejected strptime now u =
     (denylisted u \<or> \<not> active u \<or> protocol u \<noteq> ''https''
      \<or> completion_pct u < 1 \<or> score u \<ge> 1
      \<or> (case strptime (last_sync u) ''%Y-%m-%dT%H:%M:%SZ'' of
            None \<Rightarrow> False
          | Some t \<Rightarrow> stale now t))"

text \<open>
  The filter reads the timestamp of an entry that passes the first five checks; the entry
  is readable when that does not raise.
\<close>

definition readable :: "strptime_fn \<Rightarrow> url_information \<Rightarrow> bool" where
  "readable strptime u =
     (\<not> passes_first_five u \<or> strptime (last_sync u) ''%Y-%m-%dT%H:%M:%SZ'' \<noteq> None)"

subsection \<open>An instance of strptime for the two formats of the script\<close>

text \<open>
  To run the model on concrete timestamps, \<open>strptime_fixed\<close> reads the two formats the
  script uses, in the zero-padded form the status document has them
  (\<^verbatim>\<open>2020-01-01T06:00:00Z\<close>, \<^verbatim>\<open>2020-01-01T06:00:00.250Z\<close>), and computes the ordinal
  of the date as the \<open>datetime\<close> module does (\<open>_ymd2ord\<close>). Python accepts a few more
  spellings (unpadded fields, lower-case separators); every theorem below holds for any
  function in place of \<open>strptime\<close>, and this one only serves the concrete runs.
\<close>

definition digit :: "char \<Rightarrow> int option" where
  "digit c = (let n = (of_char c :: int) in if 48 \<le> n \<and> n \<le> 57 then Some (n - 48) else None)"

fun digits :: "int \<Rightarrow> string \<Rightarrow> int option" where
  "digits acc [] = Some acc"
| "digits acc (c # cs) = (case digit c of None \<Rightarrow> None | Some d \<Rightarrow> digits (10 * acc + d) cs)"

definition field :: "nat \<Rightarrow> nat \<Rightarrow> string \<Rightarrow> int option" where
  "field start len s = digits 0 (take len (drop start s))"

definition is_leap :: "int \<Rightarrow> bool" where
  "is_leap year = (year mod 4 = 0 \<and> (year mod 100 \<noteq> 0 \<or> year mod 400 = 0))"

definition days_before_year :: "int \<Rightarrow> int" where
  "days_before_year year = (let y = year - 1 in y * 365 + y div 4 - y div 100 + y div 400)"

definition days_in_month :: "int \<Rightarrow> int \<Rightarrow> int" where
  "days_in_month year month =
     (if month = 2 \<and> is_leap year then 29
      else [0, 31, 28, 31, 30, 31, 30, 31, 31, 30, 31, 30, 31] ! nat month)"

definition days_before_month :: "int \<Rightarrow> int \<Rightarrow> int" where
  "days_before_month year month =
     [0, 0, 31, 59, 90, 120, 151, 181, 212, 243, 273, 304, 334] ! nat month
       + (if month > 2 \<and> is_leap year then 1 else 0)"

definition ymd2ord :: "int \<Rightarrow> int \<Rightarrow> int \<Rightarrow> int" where
  "ymd2ord year month day = days_before_year year + days_before_month year month + day"

definition mk_datetime :: "int \<Rightarrow> int \<Rightarrow> int \<Rightarrow> int \<Rightarrow> int \<Rightarrow> int \<Rightarrow> int \<Rightarrow> datetime option" where
  "mk_datetime year month day hour minute second microsecond =
     (if 1 \<le> year \<and> year \<le> 9999 \<and> 1 \<le> month \<and> month \<le> 12
         \<and> 1 \<le> day \<and> day \<le> days_in_month year month
         \<and> hour \<le> 23 \<and> minute \<le> 59 \<and> second \<le> 59 \<and> microsecond \<le> 999999
      then Some ((((ymd2ord year month day * 24 + hour) * 60 + minute) * 60 + second)
                   * 1000000 + microsecond)
      else None)"

definition separators :: "string \<Rightarrow> bool" where
  "separators s =
     (s ! 4 = CHR ''-'' \<and> s ! 7 = CHR ''-'' \<and> s ! 10 = CHR ''T''
      \<and> s ! 13 = CHR '':'' \<and> s ! 16 = CHR '':'')"

definition strptime_fixed :: strptime_fn where
  "strptime_fixed timestamp time_format =
     (if time_format = ''%Y-%m-%dT%H:%M:%SZ'' then
        (if length timestamp = 20 \<and> separators timestamp \<and> timestamp ! 19 = CHR ''Z'' then
           do {
             year \<leftarrow> field 0 4 timestamp;
             month \<leftarrow> field 5 2 timestamp;
             day \<leftarrow> field 8 2 timestamp;
             hour \<leftarrow> field 11 2 timestamp;
             minute \<leftarrow> field 14 2 timestamp;
             second \<leftarrow> field 17 2 timestamp;
             mk_datetime year month day hour minute second 0
           }
         else None)
      else if time_format = ''%Y-%m-%dT%H:%M:%S.%fZ'' then
        (if 22 \<le> length timestamp \<and> length timestamp \<le> 27 \<and> separators timestamp
            \<and> timestamp ! 19 = CHR ''.'' \<and> last timestamp = CHR ''Z'' then
           do {
             year \<leftarrow> field 0 4 timestamp;
             month \<leftarrow> field 5 2 timestamp;
             day \<leftarrow> field 8 2 timestamp;
             hour \<leftarrow> field 11 2 timestamp;
             minute \<leftarrow> field 14 2 timestamp;
             second \<leftarrow> field 17 2 timestamp;
             fraction \<leftarrow> field 20 (length timestamp - 21) timestamp;
             mk_datetime year month day hour minute second
               (fraction * 10 ^ (27 - length timestamp))
           }
         else None)
      else None)"

subsection \<open>Concrete inputs\<close>

text \<open>
  The reference instant of the concrete runs is 2020-01-01T06:00:00. \<open>mirror_a\<close> is the
  entry of the end-to-end scenario A, synchronised at the reference instant;
  \<open>mirror_b\<close> is a second acceptable mirror; \<open>mirror_c\<close> would pass the first five
  checks, and its \<open>last_sync\<close> is not a timestamp.
\<close>

definition now0 :: datetime where
  "now0 = 63713541600000000"

definition mirror_a :: url_information where
  "mirror_a = \<lparr>url = ''mirror.example/'', protocol = ''https'',
     last_sync = ''2020-01-01T06:00:00Z'', completion_pct = 1, score = 1/2, active = True\<rparr>"

definition mirror_b :: url_information where
  "mirror_b = \<lparr>url = ''https://b.example/arch/'', protocol = ''https'',
     last_sync = ''2020-01-01T02:30:00Z'', completion_pct = 1, score = 1/4, active = True\<rparr>"

definition mirror_c :: url_information where
  "mirror_c = \<lparr>url = ''https://c.example/'', protocol = ''https'',
     last_sync = ''never'', completion_pct = 1, score = 0, active = True\<rparr>"

definition env0 :: "url_information list \<Rightarrow> env" where
  "env0 us = \<lparr>platform = ''linux'', euid = 0, NOW = now0,
     response = Inr \<lparr>last_check = ''2020-01-01T05:58:20.250000Z'', urls = us\<rparr>\<rparr>"

definition world0 :: world where
  "world0 = \<lparr>mirrorlist = Some ''Server = old'', writable = True, events = []\<rparr>"

section \<open>Properties\<close>

subsection \<open>The checks of the code and the checks of the specification\<close>

lemma list_ex_denylisted:
  "list_ex (\<lambda>slow_url. sublist slow_url (url u)) URL_BLACKLIST = denylisted u"
  by (simp add: denylisted_def list_ex_iff)

lemma hours_gt_threshold:
  "(total_seconds d / 3600 > MAX_LAST_SYNC_HOURS) = (d > threshold_us)"
proof -
  have "(total_seconds d / 3600 > MAX_LAST_SYNC_HOURS) = ((of_int d :: rat) > of_int threshold_us)"
    by (simp add: total_seconds_def MAX_LAST_SYNC_HOURS_def threshold_us_def field_simps)
  also have "\<dots> = (d > threshold_us)"
    by (simp only: of_int_less_iff)
  finally show ?thesis .
qed

lemma is_outdated_Some:
  "strptime ts fmt = Some t \<Longrightarrow> is_outdated strptime now ts fmt = Inr (stale now t)"
  by (simp only: is_outdated_def stale_def Let_def hours_gt_threshold option.case)

lemma is_outdated_None:
  "strptime ts fmt = None \<Longrightarrow> is_outdated strptime now ts fmt = Inl ValueError"
  by (simp add: is_outdated_def)

lemma first_five_guard:
  "passes_first_five u =
     (\<not> list_ex (\<lambda>slow_url. sublist slow_url (url u)) URL_BLACKLIST \<and> active u
      \<and> protocol u = ''https'' \<and> completion_pct u \<ge> MINIMUM_COMPLETION_PERCENTAGE
      \<and> \<not> score u \<ge> MAX_SCORE)"
  by (auto simp: passes_first_five_def list_ex_denylisted MINIMUM_COMPLETION_PERCENTAGE_def
      MAX_SCORE_def)

lemma updated_urls_Cons:
  "updated_urls strptime now (u # us) =
     (if \<not> passes_first_five u then updated_urls strptime now us
      else (case strptime (last_sync u) ''%Y-%m-%dT%H:%M:%SZ'' of
              None \<Rightarrow> Raise ValueError
            | Some t \<Rightarrow> if stale now t then updated_urls strptime now us
                        else Yield (mirror_path u) (updated_urls strptime now us)))"
  by (auto simp: first_five_guard is_outdated_Some is_outdated_None split: option.splits)


lemma yields_updated_urls:
  "yields (updated_urls strptime now us) =
     map mirror_path (filter (accepted strptime now) (takeWhile (readable strptime) us))"
proof (induction us)
  case Nil
  show ?case by simp
next
  case (Cons u us)
  show ?case
    unfolding updated_urls_Cons using Cons.IH
    by (auto simp: accepted_def readable_def split: option.splits)
qed

lemma raised_updated_urls:
  "raised (updated_urls strptime now us) =
     (if list_all (readable strptime) us then None else Some ValueError)"
proof (induction us)
  case Nil
  show ?case by simp
next
  case (Cons u us)
  show ?case
    unfolding updated_urls_Cons using Cons.IH
    by (auto simp: readable_def split: option.splits)
qed

lemma updated_urls_gen_of:
  "list_all (readable strptime) us \<Longrightarrow>
   updated_urls strptime now us = gen_of (map mirror_path (filter (accepted strptime now) us))"
proof (induction us)
  case Nil
  show ?case by simp
next
  case (Cons u us)
  then show ?case
    unfolding updated_urls_Cons
    by (auto simp: accepted_def readable_def split: option.splits)
qed

lemma main_loop_writable:
  "writable w \<Longrightarrow>
   main_loop g have_failed m w =
     ((case raised g of Some e \<Rightarrow> Inl e | None \<Rightarrow> Inr (have_failed \<and> yields g = [])),
      if yields g = [] then w
      else w\<lparr>mirrorlist := Some (kept m (mirrorlist w) @ concat (yields g)),
             events := events w @ line_ops m (yields g)\<rparr>)"
proof (induction g arbitrary: have_failed m w)
  case Stop
  show ?case by simp
next
  case (Raise e)
  show ?case by simp
next
  case (Yield line g)
  let ?w1 = "w\<lparr>mirrorlist := Some (kept m (mirrorlist w) @ line),
               events := events w @ [Open MIRROR_LIST_PATH m, Write line, Close]\<rparr>"
  have step: "open_write m line w = (Inr (), ?w1)"
    using Yield.prems by (cases m; cases "mirrorlist w") (simp_all add: open_write_def)
  have "writable ?w1" using Yield.prems by simp
  from Yield.IH [OF this, of False Mode_a] step show ?case
    by (simp split: option.splits)
qed

lemma main_loop_unwritable:
  "\<not> writable w \<Longrightarrow>
   main_loop g have_failed m w =
     (if yields g = []
      then ((case raised g of Some e \<Rightarrow> Inl e | None \<Rightarrow> Inr have_failed), w)
      else (Inl OSError, w\<lparr>events := events w @ [Open MIRROR_LIST_PATH m]\<rparr>))"
  by (cases g) (simp_all add: open_write_def)

subsection \<open>The freshness check\<close>

text \<open>
  Python computes \<open>hours_since_last_sync\<close> in floating point:
  \<open>result.total_seconds()\<close> is the number of microseconds divided by \<open>10**6\<close>, and the
  quotient is divided by 3600. A \<open>timedelta\<close> is a whole number of microseconds, so the
  exact quotient is 6 or differs from 6 by more than \<open>2 * 10^-10\<close>, far more than the
  two roundings can move it: the comparison with 6 comes out as it does on the exact
  rationals of \<open>is_outdated\<close>.
\<close>

text \<open>
  Claim C5. For a timestamp that parses under the given format, \<open>is_outdated\<close> returns
  true exactly when the time from the parsed instant to the reference instant is more than
  six hours (21 600 000 000 microseconds). At exactly six hours the answer is false; at six
  hours and 0.01 hours (36 seconds) it is true.
\<close>

theorem is_outdated_exceeds:
  "strptime timestamp time_format = Some parsed \<Longrightarrow>
   is_outdated strptime now timestamp time_format = Inr (now - parsed > 6 * 3600 * 1000000)
   \<and> (now - parsed = 6 * 3600 * 1000000 \<longrightarrow>
        is_outdated strptime now timestamp time_format = Inr False)
   \<and> (now - parsed = 6 * 3600 * 1000000 + 36 * 1000000 \<longrightarrow>
        is_outdated strptime now timestamp time_format = Inr True)"
  by (simp add: is_outdated_Some stale_def threshold_us_def)

theorem is_outdated_exceeds_witness:
  "strptime_fixed ''2020-01-01T00:00:00Z'' ''%Y-%m-%dT%H:%M:%SZ'' = Some (now0 - 6 * 3600 * 1000000)
   \<and> is_outdated strptime_fixed now0 ''2020-01-01T00:00:00Z'' ''%Y-%m-%dT%H:%M:%SZ'' = Inr False
   \<and> strptime_fixed ''2019-12-31T23:59:24Z'' ''%Y-%m-%dT%H:%M:%SZ''
       = Some (now0 - (6 * 3600 * 1000000 + 36 * 1000000))
   \<and> is_outdated strptime_fixed now0 ''2019-12-31T23:59:24Z'' ''%Y-%m-%dT%H:%M:%SZ'' = Inr True"
proof -
  have a: "strptime_fixed ''2020-01-01T00:00:00Z'' ''%Y-%m-%dT%H:%M:%SZ''
             = Some (now0 - 6 * 3600 * 1000000)"
    by code_simp
  have b: "strptime_fixed ''2019-12-31T23:59:24Z'' ''%Y-%m-%dT%H:%M:%SZ''
             = Some (now0 - (6 * 3600 * 1000000 + 36 * 1000000))"
    by code_simp
  from a b
    is_outdated_exceeds [where strptime = strptime_fixed and now = now0
      and timestamp = "''2020-01-01T00:00:00Z''" and time_format = "''%Y-%m-%dT%H:%M:%SZ''"
      and parsed = "now0 - 6 * 3600 * 1000000"]
    is_outdated_exceeds [where strptime = strptime_fixed and now = now0
      and timestamp = "''2019-12-31T23:59:24Z''" and time_format = "''%Y-%m-%dT%H:%M:%SZ''"
      and parsed = "now0 - (6 * 3600 * 1000000 + 36 * 1000000)"]
  show ?thesis by simp
qed

text \<open>
  Claim C10. A timestamp that parses to an instant at or after the reference instant is
  never outdated.
\<close>

theorem is_outdated_future:
  "strptime timestamp time_format = Some parsed \<Longrightarrow> now \<le> parsed \<Longrightarrow>
   is_outdated strptime now timestamp time_format = Inr False"
  by (simp add: is_outdated_Some stale_def threshold_us_def)

theorem is_outdated_future_witness:
  "strptime_fixed ''2020-01-01T07:30:00Z'' ''%Y-%m-%dT%H:%M:%SZ'' = Some (now0 + 5400000000)
   \<and> now0 \<le> now0 + 5400000000
   \<and> is_outdated strptime_fixed now0 ''2020-01-01T07:30:00Z'' ''%Y-%m-%dT%H:%M:%SZ'' = Inr False"
proof -
  have a: "strptime_fixed ''2020-01-01T07:30:00Z'' ''%Y-%m-%dT%H:%M:%SZ'' = Some (now0 + 5400000000)"
    by code_simp
  have b: "now0 \<le> now0 + 5400000000" by simp
  from a b
    is_outdated_future [where strptime = strptime_fixed and now = now0
      and timestamp = "''2020-01-01T07:30:00Z''" and time_format = "''%Y-%m-%dT%H:%M:%SZ''"
      and parsed = "now0 + 5400000000"]
  show ?thesis by simp
qed

subsection \<open>The filter\<close>

text \<open>
  Claim C1, as the specification states it, has the filter produce, for every input list,
  the lines of exactly the entries that satisfy all six checks. The filter reads the
  timestamp of an entry that passes the first five checks, and a timestamp that does not
  parse ends the generator there: on the unreadable \<open>mirror_c\<close> followed by
  \<open>mirror_a\<close>, the entry \<open>mirror_a\<close> satisfies all six checks, and the generator
  raises \<open>ValueError\<close> before it yields anything.
\<close>

theorem updated_urls_raises_before_accepted:
  "filter (accepted strptime_fixed now0) [mirror_c, mirror_a] = [mirror_a]
   \<and> updated_urls strptime_fixed now0 [mirror_c, mirror_a] = Raise ValueError
   \<and> yields (updated_urls strptime_fixed now0 [mirror_c, mirror_a]) = []
   \<and> updated_urls strptime_fixed now0 [mirror_c, mirror_a]
       \<noteq> gen_of (map mirror_path (filter (accepted strptime_fixed now0) [mirror_c, mirror_a]))"
  by code_simp

text \<open>
  Claim C1, amended. For every input list, the lines that \<open>updated_urls\<close> yields are
  the lines of the entries that satisfy all six checks of the specification
  (\<open>accepted\<close>) among the entries before the first unreadable one, in the order of the
  input, every other entry being skipped. When every entry is readable, that is, every
  \<open>last_sync\<close> the filter parses does parse, this is the whole list: the generator ends
  normally and is exactly the sequence of the lines of the accepted entries. Otherwise
  the generator raises \<open>ValueError\<close> after those lines.
\<close>

theorem updated_urls_filter:
  "yields (updated_urls strptime now us) =
     map mirror_path (filter (accepted strptime now) (takeWhile (readable strptime) us))
   \<and> ((\<forall>u \<in> set us. readable strptime u) \<longrightarrow>
        updated_urls strptime now us =
          gen_of (map mirror_path (filter (accepted strptime now) us)))
   \<and> raised (updated_urls strptime now us) =
        (if list_all (readable strptime) us then None else Some ValueError)"
  by (simp add: yields_updated_urls updated_urls_gen_of raised_updated_urls list_all_iff)

theorem updated_urls_filter_witness:
  "list_all (readable strptime_fixed)
     [mirror_b, mirror_a\<lparr>protocol := ''http''\<rparr>, mirror_c\<lparr>active := False\<rparr>, mirror_a,
      mirror_b\<lparr>last_sync := ''2019-12-31T23:59:59Z''\<rparr>]
   \<and> filter (accepted strptime_fixed now0)
     [mirror_b, mirror_a\<lparr>protocol := ''http''\<rparr>, mirror_c\<lparr>active := False\<rparr>, mirror_a,
      mirror_b\<lparr>last_sync := ''2019-12-31T23:59:59Z''\<rparr>] = [mirror_b, mirror_a]
   \<and> updated_urls strptime_fixed now0
     [mirror_b, mirror_a\<lparr>protocol := ''http''\<rparr>, mirror_c\<lparr>active := False\<rparr>, mirror_a,
      mirror_b\<lparr>last_sync := ''2019-12-31T23:59:59Z''\<rparr>]
     = Yield (mirror_path mirror_b) (Yield (mirror_path mirror_a) Stop)"
proof -
  let ?us = "[mirror_b, mirror_a\<lparr>protocol := ''http''\<rparr>, mirror_c\<lparr>active := False\<rparr>, mirror_a,
      mirror_b\<lparr>last_sync := ''2019-12-31T23:59:59Z''\<rparr>]"
  have r: "list_all (readable strptime_fixed) ?us"
    by code_simp
  have f: "filter (accepted strptime_fixed now0) ?us = [mirror_b, mirror_a]"
    by code_simp
  from r have "\<forall>u \<in> set ?us. readable strptime_fixed u"
    by (simp only: list_all_iff)
  with updated_urls_filter [of strptime_fixed now0 ?us]
  have "updated_urls strptime_fixed now0 ?us =
          gen_of (map mirror_path (filter (accepted strptime_fixed now0) ?us))"
    by blast
  with r f show ?thesis by simp
qed

text \<open>
  Claim C9. The timestamp check comes last. An entry that fails one of the first five
  checks is skipped whatever \<open>strptime\<close> makes of its \<open>last_sync\<close>, also when it does
  not parse: nothing is raised for it. An entry that passes the first five checks and
  whose \<open>last_sync\<close> does not parse makes the generator raise \<open>ValueError\<close>.
\<close>

theorem updated_urls_short_circuit:
  "(denylisted u \<or> \<not> active u \<or> protocol u \<noteq> ''https'' \<or> completion_pct u < 1 \<or> score u \<ge> 1
      \<longrightarrow> updated_urls strptime now (u # us) = updated_urls strptime now us
          \<and> updated_urls strptime now [u] = Stop)
   \<and> (\<not> (denylisted u \<or> \<not> active u \<or> protocol u \<noteq> ''https'' \<or> completion_pct u < 1
            \<or> score u \<ge> 1)
        \<and> strptime (last_sync u) ''%Y-%m-%dT%H:%M:%SZ'' = None
      \<longrightarrow> updated_urls strptime now (u # us) = Raise ValueError)"
  unfolding updated_urls_Cons by (auto simp: passes_first_five_def)

theorem updated_urls_short_circuit_witness:
  "strptime_fixed (last_sync mirror_c) ''%Y-%m-%dT%H:%M:%SZ'' = None
   \<and> updated_urls strptime_fixed now0 [mirror_c\<lparr>active := False\<rparr>, mirror_a]
       = updated_urls strptime_fixed now0 [mirror_a]
   \<and> updated_urls strptime_fixed now0 [mirror_c\<lparr>score := 1\<rparr>] = Stop
   \<and> updated_urls strptime_fixed now0 [mirror_c, mirror_a] = Raise ValueError"
proof -
  have n: "strptime_fixed (last_sync mirror_c) ''%Y-%m-%dT%H:%M:%SZ'' = None"
    by code_simp
  have p: "\<not> (denylisted mirror_c \<or> \<not> active mirror_c \<or> protocol mirror_c \<noteq> ''https''
              \<or> completion_pct mirror_c < 1 \<or> score mirror_c \<ge> 1)"
    by code_simp
  from n p
    updated_urls_short_circuit [of "mirror_c\<lparr>active := False\<rparr>" strptime_fixed now0 "[mirror_a]"]
    updated_urls_short_circuit [of "mirror_c\<lparr>score := 1\<rparr>" strptime_fixed now0 "[]"]
    updated_urls_short_circuit [of mirror_c strptime_fixed now0 "[mirror_a]"]
  show ?thesis by simp
qed

text \<open>
  Claim C6. The line yielded for an accepted entry is \<open>Server = \<close>, the url of the
  entry, the text \<^verbatim>\<open>$repo/os/$arch\<close> as it stands, and a newline; and every line the
  generator yields is that line of some accepted entry of the input.
\<close>

theorem updated_urls_line:
  "(accepted strptime now u \<longrightarrow>
      updated_urls strptime now (u # us) =
        Yield (''Server = '' @ url u @ ''$repo/os/$arch'' @ [CHR 0x0A])
          (updated_urls strptime now us))
   \<and> (\<forall>l \<in> set (yields (updated_urls strptime now us)).
        \<exists>u \<in> set us. accepted strptime now u
          \<and> l = ''Server = '' @ url u @ ''$repo/os/$arch'' @ [CHR 0x0A])"
proof -
  have first: "updated_urls strptime now (u # us) =
        Yield (''Server = '' @ url u @ ''$repo/os/$arch'' @ [CHR 0x0A])
          (updated_urls strptime now us)" if "accepted strptime now u"
    using that unfolding updated_urls_Cons
    by (auto simp: accepted_def mirror_path_def split: option.splits)
  have second: "\<forall>l \<in> set (yields (updated_urls strptime now us)).
        \<exists>u \<in> set us. accepted strptime now u
          \<and> l = ''Server = '' @ url u @ ''$repo/os/$arch'' @ [CHR 0x0A]"
  proof
    fix l
    assume "l \<in> set (yields (updated_urls strptime now us))"
    then obtain u where "u \<in> set (takeWhile (readable strptime) us)"
      and "accepted strptime now u" and "l = mirror_path u"
      unfolding yields_updated_urls by auto
    then show "\<exists>u \<in> set us. accepted strptime now u
          \<and> l = ''Server = '' @ url u @ ''$repo/os/$arch'' @ [CHR 0x0A]"
      by (auto simp: mirror_path_def dest: set_takeWhileD)
  qed
  from first second show ?thesis by blast
qed

theorem updated_urls_line_witness:
  "accepted strptime_fixed now0 mirror_a
   \<and> updated_urls strptime_fixed now0 [mirror_a] =
       Yield (''Server = mirror.example/$repo/os/$arch'' @ [CHR 0x0A]) Stop"
proof -
  have a: "accepted strptime_fixed now0 mirror_a"
    by code_simp
  have u: "url mirror_a = ''mirror.example/''"
    by (simp add: mirror_a_def)
  from a u updated_urls_line [of strptime_fixed now0 mirror_a "[]"]
  show ?thesis by simp
qed

subsection \<open>The entry point\<close>

text \<open>
  Claim C7. The platform is checked first and the effective user id second. When the
  platform string does not contain \<open>linux\<close>, \<open>main\<close> ends with the \<open>RuntimeError\<close> of
  the platform check; when it does and the effective user id is not 0, with the
  \<open>RuntimeError\<close> of the privilege check. In both cases the world is returned as it was:
  nothing was fetched, no warning was emitted, the file was not opened.
\<close>

theorem main_preconditions:
  "(\<not> is_platform_linux (platform e) \<longrightarrow>
      main strptime e w = (Inl (RuntimeError ''The running platform is not linux''), w))
   \<and> (is_platform_linux (platform e) \<and> euid e \<noteq> 0 \<longrightarrow>
      main strptime e w =
        (Inl (RuntimeError ''The user who is running the script needs to be root''), w))"
  by (simp add: main_def)

theorem main_preconditions_witness:
  "\<not> is_platform_linux ''win32''
   \<and> main strptime_fixed ((env0 [mirror_a])\<lparr>platform := ''win32''\<rparr>) world0 =
       (Inl (RuntimeError ''The running platform is not linux''), world0)
   \<and> is_platform_linux ''linux''
   \<and> main strptime_fixed ((env0 [mirror_a])\<lparr>euid := 1000\<rparr>) world0 =
       (Inl (RuntimeError ''The user who is running the script needs to be root''), world0)"
proof -
  have a: "\<not> is_platform_linux ''win32''" by code_simp
  have b: "is_platform_linux ''linux''" by code_simp
  from a b
    main_preconditions [of "(env0 [mirror_a])\<lparr>platform := ''win32''\<rparr>" strptime_fixed world0]
    main_preconditions [of "(env0 [mirror_a])\<lparr>euid := 1000\<rparr>" strptime_fixed world0]
  show ?thesis by (simp add: env0_def)
qed

subsection \<open>Runs of the entry point\<close>

lemma updated_urls_all_rejected:
  "\<forall>u \<in> set us. rejected strptime now u \<Longrightarrow> updated_urls strptime now us = Stop"
proof (induction us)
  case Nil
  show ?case by simp
next
  case (Cons u us)
  then show ?case
    unfolding updated_urls_Cons
    by (auto simp: rejected_def passes_first_five_def split: option.splits)
qed

lemma main_unfold:
  assumes "is_platform_linux (platform e)" and "euid e = 0" and "response e = Inr D"
    and "is_outdated strptime (NOW e) (last_check D) ''%Y-%m-%dT%H:%M:%S.%fZ'' = Inr b"
  shows "main strptime e w =
    (case main_loop (updated_urls strptime (NOW e) (urls D)) True Mode_w
            (w\<lparr>events := events w @ Urlopen URL #
                  (if b then [Warn ''RuntimeWarning'' stale_message] else [])\<rparr>) of
       (Inl err, w3) \<Rightarrow> (Inl err, w3)
     | (Inr have_failed, w3) \<Rightarrow>
         (Inr (), if have_failed
                  then warn ''UserWarning'' ''The mirror list was not updated'' w3 else w3))"
  using assms by (simp add: main_def load_data_from_url_def warn_def)

lemma main_outdated_raises:
  assumes "is_platform_linux (platform e)" and "euid e = 0" and "response e = Inr D"
    and "strptime (last_check D) ''%Y-%m-%dT%H:%M:%S.%fZ'' = None"
  shows "main strptime e w = (Inl ValueError, w\<lparr>events := events w @ [Urlopen URL]\<rparr>)"
  using assms by (simp add: main_def load_data_from_url_def is_outdated_None)

lemma main_ok_preconditions:
  assumes "fst (main strptime e w) \<noteq> Inl (RuntimeError ''The running platform is not linux'')"
    and "fst (main strptime e w) \<noteq>
           Inl (RuntimeError ''The user who is running the script needs to be root'')"
  shows "is_platform_linux (platform e) \<and> euid e = 0"
  using assms by (auto simp: main_def split: if_splits)

lemma filter_file_op_line_ops: "filter is_file_op (line_ops m ls) = line_ops m ls"
  by (induction ls arbitrary: m) simp_all

lemma filter_is_open_line_ops:
  "filter is_open (line_ops m ls) =
     (if ls = [] then []
      else Open MIRROR_LIST_PATH m # replicate (length ls - 1) (Open MIRROR_LIST_PATH Mode_a))"
proof (induction ls arbitrary: m)
  case Nil
  show ?case by simp
next
  case (Cons l ls)
  from Cons.IH [of Mode_a] show ?case by (cases ls) simp_all
qed

text \<open>
  Claim C8. When the top-level \<open>last_check\<close> is outdated, the run emits one
  \<open>RuntimeWarning\<close> right after the fetch and is otherwise the run on the same document
  with a fresh \<open>last_check\<close>: the same outcome, the same content of the mirror list, and
  the same effects after the warning.
\<close>

theorem main_stale_last_check:
  assumes "is_platform_linux (platform e)" and "euid e = 0" and "response e = Inr D"
    and "is_outdated strptime (NOW e) (last_check D) ''%Y-%m-%dT%H:%M:%S.%fZ'' = Inr True"
    and "is_outdated strptime (NOW e) fresh ''%Y-%m-%dT%H:%M:%S.%fZ'' = Inr False"
  shows "fst (main strptime e w) = fst (main strptime (e\<lparr>response := Inr (D\<lparr>last_check := fresh\<rparr>)\<rparr>) w)
    \<and> mirrorlist (snd (main strptime e w)) =
        mirrorlist (snd (main strptime (e\<lparr>response := Inr (D\<lparr>last_check := fresh\<rparr>)\<rparr>) w))
    \<and> (\<exists>rest.
          events (snd (main strptime e w)) =
            events w @ [Urlopen URL, Warn ''RuntimeWarning'' stale_message] @ rest
        \<and> events (snd (main strptime (e\<lparr>response := Inr (D\<lparr>last_check := fresh\<rparr>)\<rparr>) w)) =
            events w @ [Urlopen URL] @ rest)"
proof -
  let ?e' = "e\<lparr>response := Inr (D\<lparr>last_check := fresh\<rparr>)\<rparr>"
  have run: "main strptime e w =
    (case main_loop (updated_urls strptime (NOW e) (urls D)) True Mode_w
            (w\<lparr>events := events w @ [Urlopen URL, Warn ''RuntimeWarning'' stale_message]\<rparr>) of
       (Inl err, w3) \<Rightarrow> (Inl err, w3)
     | (Inr have_failed, w3) \<Rightarrow>
         (Inr (), if have_failed
                  then warn ''UserWarning'' ''The mirror list was not updated'' w3 else w3))"
    using main_unfold [where strptime = strptime and w = w, OF assms(1-4)] by simp
  have run': "main strptime ?e' w =
    (case main_loop (updated_urls strptime (NOW e) (urls D)) True Mode_w
            (w\<lparr>events := events w @ [Urlopen URL]\<rparr>) of
       (Inl err, w3) \<Rightarrow> (Inl err, w3)
     | (Inr have_failed, w3) \<Rightarrow>
         (Inr (), if have_failed
                  then warn ''UserWarning'' ''The mirror list was not updated'' w3 else w3))"
    using main_unfold [where strptime = strptime and w = w and e = ?e'
        and D = "D\<lparr>last_check := fresh\<rparr>" and b = False] assms
    by simp
  show ?thesis
  proof (cases "writable w")
    case True
    then show ?thesis
      unfolding run run'
      by (auto simp: main_loop_writable warn_def split: option.splits)
  next
    case False
    then show ?thesis
      unfolding run run'
      by (auto simp: main_loop_unwritable warn_def split: option.splits)
  qed
qed

theorem main_stale_last_check_witness:
  "is_outdated strptime_fixed now0 ''2019-12-31T20:00:00.000000Z'' ''%Y-%m-%dT%H:%M:%S.%fZ''
     = Inr True
   \<and> is_outdated strptime_fixed now0 ''2020-01-01T05:58:20.250000Z'' ''%Y-%m-%dT%H:%M:%S.%fZ''
     = Inr False
   \<and> fst (main strptime_fixed
        ((env0 [mirror_a])\<lparr>response :=
           Inr \<lparr>last_check = ''2019-12-31T20:00:00.000000Z'', urls = [mirror_a]\<rparr>\<rparr>) world0)
       = fst (main strptime_fixed (env0 [mirror_a]) world0)
   \<and> mirrorlist (snd (main strptime_fixed
        ((env0 [mirror_a])\<lparr>response :=
           Inr \<lparr>last_check = ''2019-12-31T20:00:00.000000Z'', urls = [mirror_a]\<rparr>\<rparr>) world0))
       = mirrorlist (snd (main strptime_fixed (env0 [mirror_a]) world0))
   \<and> main strptime_fixed
        ((env0 [mirror_a])\<lparr>response :=
           Inr \<lparr>last_check = ''2019-12-31T20:00:00.000000Z'', urls = [mirror_a]\<rparr>\<rparr>) world0
       = (Inr (),
          \<lparr>mirrorlist = Some (mirror_path mirror_a), writable = True,
           events = [Urlopen URL, Warn ''RuntimeWarning'' stale_message,
                     Open MIRROR_LIST_PATH Mode_w, Write (mirror_path mirror_a), Close]\<rparr>)"
proof -
  let ?D = "\<lparr>last_check = ''2019-12-31T20:00:00.000000Z'', urls = [mirror_a]\<rparr>"
  let ?e = "(env0 [mirror_a])\<lparr>response := Inr ?D\<rparr>"
  have l: "is_platform_linux (platform ?e)" by code_simp
  have r: "euid ?e = 0" by (simp add: env0_def)
  have d: "response ?e = Inr ?D" by simp
  have s: "is_outdated strptime_fixed now0 ''2019-12-31T20:00:00.000000Z''
             ''%Y-%m-%dT%H:%M:%S.%fZ'' = Inr True"
    by code_simp
  have f: "is_outdated strptime_fixed now0 ''2020-01-01T05:58:20.250000Z''
             ''%Y-%m-%dT%H:%M:%S.%fZ'' = Inr False"
    by code_simp
  from s have s': "is_outdated strptime_fixed (NOW ?e) (last_check ?D)
             ''%Y-%m-%dT%H:%M:%S.%fZ'' = Inr True"
    by (simp add: env0_def)
  from f have f': "is_outdated strptime_fixed (NOW ?e) ''2020-01-01T05:58:20.250000Z''
             ''%Y-%m-%dT%H:%M:%S.%fZ'' = Inr False"
    by (simp add: env0_def)
  have same: "?e\<lparr>response := Inr (?D\<lparr>last_check := ''2020-01-01T05:58:20.250000Z''\<rparr>)\<rparr>
                = env0 [mirror_a]"
    by (simp add: env0_def)
  have m: "main strptime_fixed ?e world0
       = (Inr (),
          \<lparr>mirrorlist = Some (mirror_path mirror_a), writable = True,
           events = [Urlopen URL, Warn ''RuntimeWarning'' stale_message,
                     Open MIRROR_LIST_PATH Mode_w, Write (mirror_path mirror_a), Close]\<rparr>)"
    by code_simp
  from main_stale_last_check [OF l r d s' f', of world0] s f m show ?thesis
    unfolding same by simp
qed

text \<open>
  Claim C4. When the preconditions hold, the document was fetched and its \<open>last_check\<close>
  parses, and every entry fails at least one check (\<open>rejected\<close>), the generator yields
  nothing, the run succeeds, the mirror list keeps its content, the trace gains no file
  operation, and the last effect is the warning that the mirror list was not updated.
\<close>

theorem main_nothing_accepted:
  assumes "is_platform_linux (platform e)" and "euid e = 0" and "response e = Inr D"
    and "is_outdated strptime (NOW e) (last_check D) ''%Y-%m-%dT%H:%M:%S.%fZ'' = Inr b"
    and "\<forall>u \<in> set (urls D). rejected strptime (NOW e) u"
  shows "updated_urls strptime (NOW e) (urls D) = Stop
    \<and> fst (main strptime e w) = Inr ()
    \<and> mirrorlist (snd (main strptime e w)) = mirrorlist w
    \<and> filter is_file_op (events (snd (main strptime e w))) = filter is_file_op (events w)
    \<and> events (snd (main strptime e w)) =
        events w @ [Urlopen URL] @ (if b then [Warn ''RuntimeWarning'' stale_message] else [])
          @ [Warn ''UserWarning'' ''The mirror list was not updated'']"
proof -
  have g: "updated_urls strptime (NOW e) (urls D) = Stop"
    using assms(5) by (rule updated_urls_all_rejected)
  show ?thesis
    unfolding main_unfold [OF assms(1-4)] g
    by (simp add: warn_def)
qed

theorem main_nothing_accepted_witness:
  "is_platform_linux (platform (env0 [mirror_a\<lparr>protocol := ''http''\<rparr>, mirror_c\<lparr>active := False\<rparr>]))
   \<and> euid (env0 [mirror_a\<lparr>protocol := ''http''\<rparr>, mirror_c\<lparr>active := False\<rparr>]) = 0
   \<and> is_outdated strptime_fixed now0 ''2020-01-01T05:58:20.250000Z'' ''%Y-%m-%dT%H:%M:%S.%fZ''
       = Inr False
   \<and> list_all (rejected strptime_fixed now0)
        [mirror_a\<lparr>protocol := ''http''\<rparr>, mirror_c\<lparr>active := False\<rparr>]
   \<and> fst (main strptime_fixed
        (env0 [mirror_a\<lparr>protocol := ''http''\<rparr>, mirror_c\<lparr>active := False\<rparr>]) world0) = Inr ()
   \<and> mirrorlist (snd (main strptime_fixed
        (env0 [mirror_a\<lparr>protocol := ''http''\<rparr>, mirror_c\<lparr>active := False\<rparr>]) world0))
       = Some ''Server = old''
   \<and> events (snd (main strptime_fixed
        (env0 [mirror_a\<lparr>protocol := ''http''\<rparr>, mirror_c\<lparr>active := False\<rparr>]) world0))
       = [Urlopen URL, Warn ''UserWarning'' ''The mirror list was not updated'']"
proof -
  let ?us = "[mirror_a\<lparr>protocol := ''http''\<rparr>, mirror_c\<lparr>active := False\<rparr>]"
  let ?D = "\<lparr>last_check = ''2020-01-01T05:58:20.250000Z'', urls = ?us\<rparr>"
  have l: "is_platform_linux (platform (env0 ?us))" by code_simp
  have r: "euid (env0 ?us) = 0" by (simp add: env0_def)
  have d: "response (env0 ?us) = Inr ?D" by (simp add: env0_def)
  have o: "is_outdated strptime_fixed now0 ''2020-01-01T05:58:20.250000Z''
             ''%Y-%m-%dT%H:%M:%S.%fZ'' = Inr False"
    by code_simp
  then have o': "is_outdated strptime_fixed (NOW (env0 ?us)) (last_check ?D)
             ''%Y-%m-%dT%H:%M:%S.%fZ'' = Inr False"
    by (simp add: env0_def)
  have a: "list_all (rejected strptime_fixed now0) ?us" by code_simp
  then have a': "\<forall>u \<in> set (urls ?D). rejected strptime_fixed (NOW (env0 ?us)) u"
    by (simp add: env0_def)
  from main_nothing_accepted [OF l r d o' a', of world0] l r o a
  show ?thesis by (simp add: world0_def)
qed

text \<open>
  Claim C3, as the specification states it, has the writer open the file once for the
  whole sequence. The script opens the file inside the loop, once for each line: on the
  two acceptable mirrors \<open>mirror_a\<close> and \<open>mirror_b\<close> the successful run opens the file
  twice, first in mode "w" and then in mode "a".
\<close>

theorem main_opens_per_line:
  "fst (main strptime_fixed (env0 [mirror_a, mirror_b]) world0) = Inr ()
   \<and> yields (updated_urls strptime_fixed now0 [mirror_a, mirror_b])
       = [mirror_path mirror_a, mirror_path mirror_b]
   \<and> filter is_open (events (snd (main strptime_fixed (env0 [mirror_a, mirror_b]) world0)))
       = [Open MIRROR_LIST_PATH Mode_w, Open MIRROR_LIST_PATH Mode_a]"
  by code_simp

text \<open>
  Claim C3, amended. For a run that succeeds after the generator yielded the lines
  \<open>ls\<close>, not empty: the file is opened once for each line, the first time in mode "w"
  and every later time in mode "a", each time to write that one line and close; the
  content of the file is then the concatenation of the lines in order, and nothing of the
  earlier content is left.
\<close>

theorem main_writes_lines:
  assumes "main strptime e w = (Inr (), w')" and "response e = Inr D"
    and "yields (updated_urls strptime (NOW e) (urls D)) = ls" and "ls \<noteq> []"
  shows "mirrorlist w' = Some (concat ls)
    \<and> filter is_file_op (events w') = filter is_file_op (events w) @ line_ops Mode_w ls
    \<and> filter is_open (drop (length (events w)) (events w')) =
        Open MIRROR_LIST_PATH Mode_w # replicate (length ls - 1) (Open MIRROR_LIST_PATH Mode_a)"
proof -
  from assms(1) have pre: "is_platform_linux (platform e)" "euid e = 0"
    using main_ok_preconditions [of strptime e w] by simp_all
  obtain b where b: "is_outdated strptime (NOW e) (last_check D) ''%Y-%m-%dT%H:%M:%S.%fZ'' = Inr b"
  proof (cases "strptime (last_check D) ''%Y-%m-%dT%H:%M:%S.%fZ''")
    case None
    from main_outdated_raises [where strptime = strptime and w = w, OF pre assms(2) None] assms(1)
    show ?thesis by simp
  next
    case (Some t)
    from is_outdated_Some [where strptime = strptime, OF Some] that show ?thesis by blast
  qed
  note run = main_unfold [where strptime = strptime and w = w, OF pre assms(2) b]
  show ?thesis
  proof (cases "writable w")
    case True
    with run assms(1,3,4) show ?thesis
      by (auto simp: main_loop_writable filter_file_op_line_ops filter_is_open_line_ops
          split: option.splits if_splits)
  next
    case False
    with run assms(1,3,4) show ?thesis
      by (simp add: main_loop_unwritable)
  qed
qed

theorem main_writes_lines_witness:
  "main strptime_fixed (env0 [mirror_a, mirror_c\<lparr>score := 2\<rparr>, mirror_b]) world0 =
     (Inr (),
      \<lparr>mirrorlist = Some (mirror_path mirror_a @ mirror_path mirror_b), writable = True,
       events = [Urlopen URL,
                 Open MIRROR_LIST_PATH Mode_w, Write (mirror_path mirror_a), Close,
                 Open MIRROR_LIST_PATH Mode_a, Write (mirror_path mirror_b), Close]\<rparr>)
   \<and> yields (updated_urls strptime_fixed now0 [mirror_a, mirror_c\<lparr>score := 2\<rparr>, mirror_b])
       = [mirror_path mirror_a, mirror_path mirror_b]
   \<and> mirrorlist (snd (main strptime_fixed
         (env0 [mirror_a, mirror_c\<lparr>score := 2\<rparr>, mirror_b]) world0))
       = Some (concat [mirror_path mirror_a, mirror_path mirror_b])"
proof -
  let ?us = "[mirror_a, mirror_c\<lparr>score := 2\<rparr>, mirror_b]"
  let ?w' = "\<lparr>mirrorlist = Some (mirror_path mirror_a @ mirror_path mirror_b), writable = True,
       events = [Urlopen URL,
                 Open MIRROR_LIST_PATH Mode_w, Write (mirror_path mirror_a), Close,
                 Open MIRROR_LIST_PATH Mode_a, Write (mirror_path mirror_b), Close]\<rparr>"
  have m: "main strptime_fixed (env0 ?us) world0 = (Inr (), ?w')"
    by code_simp
  have d: "response (env0 ?us) = Inr \<lparr>last_check = ''2020-01-01T05:58:20.250000Z'', urls = ?us\<rparr>"
    by (simp add: env0_def)
  have y: "yields (updated_urls strptime_fixed (NOW (env0 ?us))
             (urls \<lparr>last_check = ''2020-01-01T05:58:20.250000Z'', urls = ?us\<rparr>))
           = [mirror_path mirror_a, mirror_path mirror_b]"
    by code_simp
  have n: "[mirror_path mirror_a, mirror_path mirror_b] \<noteq> []" by simp
  from main_writes_lines [OF m d y n] m y show ?thesis
    by (simp add: env0_def)
qed

text \<open>
  Claim C2, as the specification states it, has the file untouched whenever the run ends
  with the \<open>ValueError\<close> of a timestamp. The generator is consumed one line at a time,
  and each line is written before the next entry is examined: with \<open>mirror_a\<close> first
  and the unreadable \<open>mirror_c\<close> second, the run ends with \<open>ValueError\<close> after the
  file has been truncated and the line of \<open>mirror_a\<close> written.
\<close>

theorem main_abort_after_write:
  "fst (main strptime_fixed (env0 [mirror_a, mirror_c]) world0) = Inl ValueError
   \<and> mirrorlist world0 = Some ''Server = old''
   \<and> mirrorlist (snd (main strptime_fixed (env0 [mirror_a, mirror_c]) world0))
       = Some (''Server = mirror.example/$repo/os/$arch'' @ [CHR 0x0A])
   \<and> mirrorlist (snd (main strptime_fixed (env0 [mirror_a, mirror_c]) world0))
       \<noteq> mirrorlist world0"
  by code_simp

text \<open>
  Claim C2, amended. A run on a fetched document that ends with \<open>ValueError\<close> met a
  timestamp that does not parse, \<open>last_check\<close> or the \<open>last_sync\<close> of an entry that
  passes the first five checks. The file keeps its content when that timestamp is
  \<open>last_check\<close>, or when no entry before the unreadable one was accepted; otherwise the
  file holds exactly the lines of the entries accepted before the unreadable one.
\<close>

theorem main_time_parse_abort:
  assumes "main strptime e w = (Inl ValueError, w')" and "response e = Inr D"
  shows "(strptime (last_check D) ''%Y-%m-%dT%H:%M:%S.%fZ'' = None
          \<or> \<not> list_all (readable strptime) (urls D))
    \<and> mirrorlist w' =
        (if strptime (last_check D) ''%Y-%m-%dT%H:%M:%S.%fZ'' = None
            \<or> filter (accepted strptime (NOW e)) (takeWhile (readable strptime) (urls D)) = []
         then mirrorlist w
         else Some (concat (map mirror_path
                (filter (accepted strptime (NOW e)) (takeWhile (readable strptime) (urls D))))))"
proof -
  from assms(1) have pre: "is_platform_linux (platform e)" "euid e = 0"
    using main_ok_preconditions [of strptime e w] by simp_all
  show ?thesis
  proof (cases "strptime (last_check D) ''%Y-%m-%dT%H:%M:%S.%fZ''")
    case None
    from main_outdated_raises [where strptime = strptime and w = w, OF pre assms(2) None] assms(1)
      None
    show ?thesis by auto
  next
    case (Some t)
    note run = main_unfold [where strptime = strptime and w = w, OF pre assms(2)
        is_outdated_Some [where strptime = strptime, OF Some]]
    show ?thesis
    proof (cases "writable w")
      case True
      with run assms(1) Some show ?thesis
        by (auto simp: main_loop_writable yields_updated_urls raised_updated_urls
            split: option.splits if_splits)
    next
      case False
      with run assms(1) Some show ?thesis
        by (auto simp: main_loop_unwritable yields_updated_urls raised_updated_urls
            split: option.splits if_splits)
    qed
  qed
qed

theorem main_time_parse_abort_witness:
  "main strptime_fixed (env0 [mirror_c\<lparr>active := False\<rparr>, mirror_b, mirror_c, mirror_a]) world0 =
     (Inl ValueError,
      \<lparr>mirrorlist = Some (mirror_path mirror_b), writable = True,
       events = [Urlopen URL, Open MIRROR_LIST_PATH Mode_w, Write (mirror_path mirror_b), Close]\<rparr>)
   \<and> filter (accepted strptime_fixed now0)
        (takeWhile (readable strptime_fixed) [mirror_c\<lparr>active := False\<rparr>, mirror_b, mirror_c, mirror_a])
       = [mirror_b]
   \<and> main strptime_fixed (env0 [mirror_c, mirror_a]) world0 =
       (Inl ValueError, world0\<lparr>events := [Urlopen URL]\<rparr>)
   \<and> filter (accepted strptime_fixed now0) (takeWhile (readable strptime_fixed) [mirror_c, mirror_a])
       = []"
proof -
  let ?us = "[mirror_c\<lparr>active := False\<rparr>, mirror_b, mirror_c, mirror_a]"
  let ?w' = "\<lparr>mirrorlist = Some (mirror_path mirror_b), writable = True,
       events = [Urlopen URL, Open MIRROR_LIST_PATH Mode_w, Write (mirror_path mirror_b), Close]\<rparr>"
  have m: "main strptime_fixed (env0 ?us) world0 = (Inl ValueError, ?w')"
    by code_simp
  have d: "response (env0 ?us) = Inr \<lparr>last_check = ''2020-01-01T05:58:20.250000Z'', urls = ?us\<rparr>"
    by (simp add: env0_def)
  have f: "filter (accepted strptime_fixed now0) (takeWhile (readable strptime_fixed) ?us) = [mirror_b]"
    by code_simp
  have m2: "main strptime_fixed (env0 [mirror_c, mirror_a]) world0 =
       (Inl ValueError, world0\<lparr>events := [Urlopen URL]\<rparr>)"
    by code_simp
  have d2: "response (env0 [mirror_c, mirror_a]) =
       Inr \<lparr>last_check = ''2020-01-01T05:58:20.250000Z'', urls = [mirror_c, mirror_a]\<rparr>"
    by (simp add: env0_def)
  have f2: "filter (accepted strptime_fixed now0)
              (takeWhile (readable strptime_fixed) [mirror_c, mirror_a]) = []"
    by code_simp
  from main_time_parse_abort [OF m d] main_time_parse_abort [OF m2 d2] m f m2 f2
  show ?thesis by simp
qed

end
